theory Spec2Isabelle
  imports Main
begin

section \<open>Data model\<close>

text \<open>
  The Go structs of package \<^verbatim>\<open>models\<close> become records. Go's \<^verbatim>\<open>int\<close> is modelled as
  \<^typ>\<open>int\<close> (no arithmetic is done on identifiers, so wrap-around never matters), a
  \<^verbatim>\<open>sql.NullTime\<close> or \<^verbatim>\<open>sql.NullInt32\<close> as an \<^typ>\<open>'a option\<close>, and a \<^verbatim>\<open>time.Time\<close> as an
  integer count of nanoseconds.

  A \<^verbatim>\<open>Partido\<close> record stands for a row of table \<^verbatim>\<open>partidos\<close> as
  \<^verbatim>\<open>GetPartidoByID\<close> scans it. The three display fields that the query joins in from
  other tables (\<^verbatim>\<open>Jugador1Nombre\<close>, \<^verbatim>\<open>Jugador2Nombre\<close>, \<^verbatim>\<open>CategoriaNombre\<close>) are never read
  by the service logic and are left out.
\<close>

type_synonym Time = int

record Partido =
  ID :: int
  TorneoID :: int
  CategoriaID :: int
  Jugador1ID :: int
  Jugador2ID :: int
  Fase :: string
  FechaAgendada :: "Time option"
  HoraAgendada :: "Time option"
  PropuestaFechaJ1 :: "Time option"
  PropuestaHoraJ1 :: "Time option"
  PropuestaFechaJ2 :: "Time option"
  PropuestaHoraJ2 :: "Time option"
  PropuestaAceptadaJ1 :: bool
  PropuestaAceptadaJ2 :: bool
  Estado :: string
  ResultadoSetsJ1 :: "int option"
  ResultadoSetsJ2 :: "int option"
  GanadorID :: "int option"
  PerdedorID :: "int option"
  ResultadoAprobado :: bool
  CreatedAt :: Time
  UpdatedAt :: Time

text \<open>The Go struct \<^verbatim>\<open>SetPartido\<close>, as a caller of \<^verbatim>\<open>ReportMatchResult\<close> supplies it.\<close>

record SetPartido =
  SetID :: int
  PartidoID :: int
  NumeroSet :: int
  ScoreJugador1 :: int
  ScoreJugador2 :: int
  TieBreakJ1 :: "int option"
  TieBreakJ2 :: "int option"
  SetCreatedAt :: Time
  SetUpdatedAt :: Time

text \<open>
  A row of table \<^verbatim>\<open>sets_partido\<close>, with the columns the \<^verbatim>\<open>INSERT\<close> statement of
  \<^verbatim>\<open>ReportMatchResult\<close> names. The \<^verbatim>\<open>SERIAL\<close> id column is assigned by the store and is
  not modelled.
\<close>

record sets_partido_row =
  partido_id :: int
  numero_set :: int
  score_jugador1 :: int
  score_jugador2 :: int
  tie_break_j1 :: "int option"
  tie_break_j2 :: "int option"
  created_at :: Time
  updated_at :: Time

record Usuario =
  UsuarioID :: int
  NombreUsuario :: string
  Email :: "string option"
  Password :: string
  PasswordHash :: string
  Rol :: string
  JugadorID :: "int option"
  UsuarioCreatedAt :: Time
  UsuarioUpdatedAt :: Time

text \<open>
  The persisted state: the tables the modelled services read and write. A table is the
  list of its rows; \<^verbatim>\<open>WHERE id = $1\<close> selects the rows whose id matches, so the model
  does not depend on the primary-key constraint.
\<close>

record db =
  partidos :: "Partido list"
  sets_partido :: "sets_partido_row list"
  usuarios :: "Usuario list"

section \<open>Errors\<close>

text \<open>
  Every error the services create with \<^verbatim>\<open>errors.New\<close> is a constructor, named after its
  message (accented letters are written without the accent); \<open>Upstream\<close> carries an
  error handed up unchanged from \<^verbatim>\<open>database/sql\<close> or from another library, and
  \<open>ValidationErrors\<close> the failures found by the struct validator, each a field name with
  the tag that failed.
  \<^item> \<open>PartidoNoEncontrado\<close>: "partido no encontrado" (the spec's MatchNotFound)
  \<^item> \<open>JugadorNoEsParte\<close>: "el jugador no es parte de este partido" (NotParticipant)
  \<^item> \<open>GanadorRequerido\<close>: "ganador_id es requerido"
  \<^item> \<open>GanadorNoCorresponde\<close>: "ganador_id no corresponde a ningun jugador del partido"
    (InvalidWinner)
  \<^item> \<open>CredencialesInvalidas\<close>: "credenciales invalidas" (InvalidCredentials)
\<close>

datatype error =
    PartidoNoEncontrado
  | JugadorNoEsParte
  | GanadorRequerido
  | GanadorNoCorresponde
  | CredencialesInvalidas
  | ValidationErrors "(string \<times> string) list"
  | Upstream string

section \<open>The store\<close>

text \<open>
  The SQL statements that the modelled services execute, with their parameters in the
  order of the placeholders.
\<close>

datatype stmt =
    UpdatePropuestaJ1 Time Time int
  | UpdatePropuestaJ2 Time Time int
  | UpdateAceptadaJ1 int
  | UpdateAceptadaJ2 int
  | UpdateResultado int int int int int
  | InsertSet int int int int "int option" "int option"
  | UpdateAprobado int

text \<open>
  The environment of one service call: the value of \<^verbatim>\<open>NOW()\<close>, and which calls into
  \<^verbatim>\<open>database/sql\<close> fail. A statement that fails has no effect. \<open>exec_fault\<close> sees the
  current state and the statement, so it covers constraint violations and type errors
  raised by the store as well as connection failures.
\<close>

record env =
  now :: Time
  begin_fault :: "string option"
  query_fault :: "string option"
  exec_fault :: "db \<Rightarrow> stmt \<Rightarrow> string option"
  rows_fault :: "string option"
  commit_fault :: "string option"

definition update_where_id :: "int \<Rightarrow> (Partido \<Rightarrow> Partido) \<Rightarrow> db \<Rightarrow> db \<times> nat" where
  "update_where_id k f d =
     (d\<lparr>partidos := map (\<lambda>p. if ID p = k then f p else p) (partidos d)\<rparr>,
      length (filter (\<lambda>p. ID p = k) (partidos d)))"

text \<open>The effect of a statement that succeeds: the new state and the rows affected.\<close>

fun run_stmt :: "Time \<Rightarrow> stmt \<Rightarrow> db \<Rightarrow> db \<times> nat" where
  "run_stmt t (UpdatePropuestaJ1 fecha hora k) d =
     update_where_id k
       (\<lambda>p. p\<lparr>PropuestaFechaJ1 := Some fecha, PropuestaHoraJ1 := Some hora, UpdatedAt := t\<rparr>) d"
| "run_stmt t (UpdatePropuestaJ2 fecha hora k) d =
     update_where_id k
       (\<lambda>p. p\<lparr>PropuestaFechaJ2 := Some fecha, PropuestaHoraJ2 := Some hora, UpdatedAt := t\<rparr>) d"
| "run_stmt t (UpdateAceptadaJ1 k) d =
     update_where_id k (\<lambda>p. p\<lparr>PropuestaAceptadaJ1 := True, UpdatedAt := t\<rparr>) d"
| "run_stmt t (UpdateAceptadaJ2 k) d =
     update_where_id k (\<lambda>p. p\<lparr>PropuestaAceptadaJ2 := True, UpdatedAt := t\<rparr>) d"
| "run_stmt t (UpdateResultado s1 s2 g l k) d =
     update_where_id k
       (\<lambda>p. p\<lparr>ResultadoSetsJ1 := Some s1, ResultadoSetsJ2 := Some s2, GanadorID := Some g,
              PerdedorID := Some l, Estado := ''finalizado'', UpdatedAt := t\<rparr>) d"
| "run_stmt t (InsertSet pid n sc1 sc2 tb1 tb2) d =
     (d\<lparr>sets_partido := sets_partido d @
          [\<lparr>partido_id = pid, numero_set = n, score_jugador1 = sc1, score_jugador2 = sc2,
            tie_break_j1 = tb1, tie_break_j2 = tb2, created_at = t, updated_at = t\<rparr>]\<rparr>, 1)"
| "run_stmt t (UpdateAprobado k) d =
     update_where_id k (\<lambda>p. p\<lparr>ResultadoAprobado := True, UpdatedAt := t\<rparr>) d"

text \<open>\<^verbatim>\<open>Exec\<close> on the pool or on a transaction: the driver's error, or the statement's effect.\<close>

definition Exec :: "env \<Rightarrow> db \<Rightarrow> stmt \<Rightarrow> error + (db \<times> nat)" where
  "Exec e d q =
     (case exec_fault e d q of
        Some msg \<Rightarrow> Inl (Upstream msg)
      | None \<Rightarrow> Inr (run_stmt (now e) q d))"

text \<open>
  The tail shared by \<^verbatim>\<open>ProposeMatchTime\<close>, \<^verbatim>\<open>AcceptMatchTime\<close> and \<^verbatim>\<open>ApproveResult\<close>:
  execute outside any transaction, then read \<^verbatim>\<open>RowsAffected\<close>; zero rows is
  "partido no encontrado".
\<close>

definition exec_checked :: "env \<Rightarrow> db \<Rightarrow> stmt \<Rightarrow> error option \<times> db" where
  "exec_checked e d q =
     (case Exec e d q of
        Inl err \<Rightarrow> (Some err, d)
      | Inr (d', rowsAffected) \<Rightarrow>
          (case rows_fault e of
             Some msg \<Rightarrow> (Some (Upstream msg), d')
           | None \<Rightarrow>
               if rowsAffected = 0 then (Some PartidoNoEncontrado, d') else (None, d')))"

section \<open>The match service\<close>

definition GetPartidoByID :: "env \<Rightarrow> db \<Rightarrow> int \<Rightarrow> error + Partido" where
  "GetPartidoByID e d k =
     (case query_fault e of
        Some msg \<Rightarrow> Inl (Upstream msg)
      | None \<Rightarrow>
          (case find (\<lambda>p. ID p = k) (partidos d) of
             None \<Rightarrow> Inl PartidoNoEncontrado
           | Some p \<Rightarrow> Inr p))"

definition ProposeMatchTime ::
  "env \<Rightarrow> db \<Rightarrow> int \<Rightarrow> int \<Rightarrow> Time \<Rightarrow> Time \<Rightarrow> error option \<times> db" where
  "ProposeMatchTime e d partidoID jugadorID fecha hora =
     (case GetPartidoByID e d partidoID of
        Inl err \<Rightarrow> (Some err, d)
      | Inr partido \<Rightarrow>
          if Jugador1ID partido \<noteq> jugadorID \<and> Jugador2ID partido \<noteq> jugadorID
          then (Some JugadorNoEsParte, d)
          else exec_checked e d
                 (if Jugador1ID partido = jugadorID
                  then UpdatePropuestaJ1 fecha hora partidoID
                  else UpdatePropuestaJ2 fecha hora partidoID))"

definition AcceptMatchTime :: "env \<Rightarrow> db \<Rightarrow> int \<Rightarrow> int \<Rightarrow> error option \<times> db" where
  "AcceptMatchTime e d partidoID jugadorID =
     (case GetPartidoByID e d partidoID of
        Inl err \<Rightarrow> (Some err, d)
      | Inr partido \<Rightarrow>
          if Jugador1ID partido \<noteq> jugadorID \<and> Jugador2ID partido \<noteq> jugadorID
          then (Some JugadorNoEsParte, d)
          else exec_checked e d
                 (if Jugador1ID partido = jugadorID
                  then UpdateAceptadaJ1 partidoID
                  else UpdateAceptadaJ2 partidoID))"

text \<open>
  The loop over the submitted sets, inside the transaction: the first insert that fails
  ends the loop with its error.
\<close>

fun insert_sets :: "env \<Rightarrow> int \<Rightarrow> db \<Rightarrow> SetPartido list \<Rightarrow> error + db" where
  "insert_sets e partidoID tx [] = Inr tx"
| "insert_sets e partidoID tx (s # sets) =
     (case Exec e tx (InsertSet partidoID (NumeroSet s) (ScoreJugador1 s) (ScoreJugador2 s)
                        (TieBreakJ1 s) (TieBreakJ2 s)) of
        Inl err \<Rightarrow> Inl err
      | Inr (tx', _) \<Rightarrow> insert_sets e partidoID tx' sets)"

text \<open>
  \<^verbatim>\<open>ReportMatchResult\<close>. The transaction works on a copy \<open>tx\<close> of the state; every
  return before \<^verbatim>\<open>Commit\<close> runs the deferred \<^verbatim>\<open>Rollback\<close>, which leaves the persisted
  state \<open>d\<close> as it was, and so does a \<^verbatim>\<open>Commit\<close> that fails. The match is read through
  the pool, outside the transaction, before anything is written. The result of the
  \<^verbatim>\<open>UPDATE\<close> is discarded: its row count is not checked.

  \<open>write_result\<close> is the part of the function after the loser has been determined.
\<close>

definition write_result ::
  "env \<Rightarrow> db \<Rightarrow> int \<Rightarrow> int \<Rightarrow> int \<Rightarrow> int \<Rightarrow> int \<Rightarrow> SetPartido list \<Rightarrow> error option \<times> db" where
  "write_result e d partidoID setsGanadosJ1 setsGanadosJ2 ganadorID perdedorID sets =
     (case Exec e d (UpdateResultado setsGanadosJ1 setsGanadosJ2 ganadorID perdedorID
                       partidoID) of
        Inl err \<Rightarrow> (Some err, d)
      | Inr (tx, _) \<Rightarrow>
          (case insert_sets e partidoID tx sets of
             Inl err \<Rightarrow> (Some err, d)
           | Inr tx' \<Rightarrow>
               (case commit_fault e of
                  Some msg \<Rightarrow> (Some (Upstream msg), d)
                | None \<Rightarrow> (None, tx'))))"

definition ReportMatchResult ::
  "env \<Rightarrow> db \<Rightarrow> int \<Rightarrow> int \<Rightarrow> int \<Rightarrow> int \<Rightarrow> SetPartido list \<Rightarrow> error option \<times> db" where
  "ReportMatchResult e d partidoID setsGanadosJ1 setsGanadosJ2 ganadorID sets =
     (case begin_fault e of
        Some msg \<Rightarrow> (Some (Upstream msg), d)
      | None \<Rightarrow>
          if ganadorID = 0 then (Some GanadorRequerido, d)
          else
            (case GetPartidoByID e d partidoID of
               Inl err \<Rightarrow> (Some err, d)
             | Inr partido \<Rightarrow>
                 if ganadorID = Jugador1ID partido
                 then write_result e d partidoID setsGanadosJ1 setsGanadosJ2 ganadorID
                        (Jugador2ID partido) sets
                 else if ganadorID = Jugador2ID partido
                 then write_result e d partidoID setsGanadosJ1 setsGanadosJ2 ganadorID
                        (Jugador1ID partido) sets
                 else (Some GanadorNoCorresponde, d)))"

definition ApproveResult :: "env \<Rightarrow> db \<Rightarrow> int \<Rightarrow> error option \<times> db" where
  "ApproveResult e d partidoID = exec_checked e d (UpdateAprobado partidoID)"


section \<open>Library functions\<close>

text \<open>
  Functions of the Go standard library and of third-party packages that the modelled code
  calls. They are parameters of the model: every theorem holds whatever they compute.
  \<open>time_Now\<close> is indexed by the number of the clock read within one call.
\<close>

record Claims =
  ClaimsUserID :: int
  ClaimsRol :: string
  ExpiresAt :: Time
  IssuedAt :: Time
  NotBefore :: Time

record Config =
  JWTSecret :: string

record lib =
  strconv_Atoi :: "string \<Rightarrow> string + int"
  json_Decode_ProposeRequest :: "string \<Rightarrow> string + (string \<times> string)"
  json_Decode_Usuario :: "string \<Rightarrow> string + Usuario"
  time_Parse :: "string \<Rightarrow> string \<Rightarrow> string + Time"
  time_Now :: "nat \<Rightarrow> Time"
  jwt_NewNumericDate :: "Time \<Rightarrow> Time"
  jwt_SignedString :: "Claims \<Rightarrow> string \<Rightarrow> string + string"
  bcrypt_CompareHashAndPassword :: "string \<Rightarrow> string \<Rightarrow> string option"
  regexp_MatchString :: "string \<Rightarrow> string \<Rightarrow> bool"
  utf8_RuneCountInString :: "string \<Rightarrow> nat"
  html_EscapeString :: "string \<Rightarrow> string"
  strings_TrimSpace :: "string \<Rightarrow> string"
  validator_Error :: "(string \<times> string) list \<Rightarrow> string"

text \<open>\<^verbatim>\<open>err.Error()\<close>: the message of an error.\<close>

fun Error :: "lib \<Rightarrow> error \<Rightarrow> string" where
  "Error l PartidoNoEncontrado = ''partido no encontrado''"
| "Error l JugadorNoEsParte = ''el jugador no es parte de este partido''"
| "Error l GanadorRequerido = ''ganador_id es requerido''"
| "Error l GanadorNoCorresponde = ''ganador_id no corresponde a ningun jugador del partido''"
| "Error l CredencialesInvalidas = ''credenciales invalidas''"
| "Error l (ValidationErrors errs) = validator_Error l errs"
| "Error l (Upstream msg) = msg"

section \<open>The authentication service\<close>

definition Hour :: Time where
  "Hour = 3600 * 1000000000"

definition CheckPasswordHash :: "lib \<Rightarrow> string \<Rightarrow> string \<Rightarrow> string option" where
  "CheckPasswordHash l password hash = bcrypt_CompareHashAndPassword l hash password"

definition GenerateJWT :: "lib \<Rightarrow> int \<Rightarrow> string \<Rightarrow> string \<Rightarrow> string + string" where
  "GenerateJWT l userID rol secretKey =
     jwt_SignedString l
       \<lparr>ClaimsUserID = userID, ClaimsRol = rol,
        ExpiresAt = jwt_NewNumericDate l (time_Now l 0 + 24 * Hour),
        IssuedAt = jwt_NewNumericDate l (time_Now l 1),
        NotBefore = jwt_NewNumericDate l (time_Now l 2)\<rparr>
       secretKey"

text \<open>
  \<^verbatim>\<open>LoginUser\<close>: \<^verbatim>\<open>sql.ErrNoRows\<close> from the lookup and any error from the hash comparison
  both become a fresh "credenciales invalidas"; every other error is handed up.
\<close>

definition LoginUser :: "env \<Rightarrow> lib \<Rightarrow> Config \<Rightarrow> db \<Rightarrow> string \<Rightarrow> string \<Rightarrow> error + string" where
  "LoginUser e l config d username password =
     (case query_fault e of
        Some msg \<Rightarrow> Inl (Upstream msg)
      | None \<Rightarrow>
          (case find (\<lambda>u. NombreUsuario u = username) (usuarios d) of
             None \<Rightarrow> Inl CredencialesInvalidas
           | Some user \<Rightarrow>
               (case CheckPasswordHash l password (PasswordHash user) of
                  Some _ \<Rightarrow> Inl CredencialesInvalidas
                | None \<Rightarrow>
                    (case GenerateJWT l (UsuarioID user) (Rol user) (JWTSecret config) of
                       Inl msg \<Rightarrow> Inl (Upstream msg)
                     | Inr token \<Rightarrow> Inr token))))"

section \<open>Validation and sanitisation\<close>

definition backslash :: string where
  "backslash = [CHR 0x5C]"

definition sqlPatterns :: "string list" where
  "sqlPatterns =
     [''(?i)(union|select|insert|update|delete|drop|create|alter|exec|execute)'',
      ''(?i)(or|and)'' @ backslash @ ''s+'' @ backslash @ ''d+'' @ backslash @ ''s*=''
        @ backslash @ ''s*'' @ backslash @ ''d+'',
      ''(?i)(or|and)'' @ backslash @ ''s+['' @ [CHR 0x27, CHR 0x22] @ ''].*[''
        @ [CHR 0x27, CHR 0x22] @ '']'',
      ''(?i)('' @ backslash @ ''-'' @ backslash @ ''-|'' @ backslash @ ''#|'' @ backslash
        @ ''/'' @ backslash @ ''*)'',
      ''(?i)(script|javascript|vbscript)'']"

definition validateNoSQLInjection :: "lib \<Rightarrow> string \<Rightarrow> bool" where
  "validateNoSQLInjection l v = (\<not> list_ex (\<lambda>pattern. regexp_MatchString l pattern v) sqlPatterns)"

definition dangerousChars :: "char list" where
  "dangerousChars = [CHR ''<'', CHR ''>'', CHR ''&'', CHR 0x22, CHR 0x27, CHR ''/'', CHR 0x5C]"

definition validateSafeString :: "string \<Rightarrow> bool" where
  "validateSafeString v = (\<not> list_ex (\<lambda>c. c \<in> set v) dangerousChars)"

text \<open>
  \<^verbatim>\<open>SanitizeString\<close>. \<^verbatim>\<open>strings.Map\<close> drops the control characters below 32 other than
  newline, carriage return and tab; on a valid UTF-8 string these are single bytes, so
  the model filters bytes.
\<close>

definition SanitizeString :: "lib \<Rightarrow> string \<Rightarrow> string" where
  "SanitizeString l input =
     strings_TrimSpace l
       (filter (\<lambda>r. \<not> ((of_char r :: nat) < 32 \<and> r \<noteq> CHR 0x0A \<and> r \<noteq> CHR 0x0D \<and> r \<noteq> CHR 0x09))
          (html_EscapeString l input))"

text \<open>
  The struct validator (package \<^verbatim>\<open>validator/v10\<close>) is not part of the repository; its
  built-in tags are modelled from their documentation. The tags of one field are checked
  in order and the first that fails is reported; the struct is valid when no field
  reports a failure. On a string, \<^verbatim>\<open>required\<close> asks for a value other than the empty
  string, \<^verbatim>\<open>min\<close> and \<^verbatim>\<open>max\<close> bound the number of runes, and \<^verbatim>\<open>oneof\<close> asks for one of
  the listed words.
\<close>

fun first_failed :: "string \<Rightarrow> (string \<times> bool) list \<Rightarrow> (string \<times> string) list" where
  "first_failed field [] = []"
| "first_failed field ((tag, ok) # tags) =
     (if ok then first_failed field tags else [(field, tag)])"

text \<open>\<^verbatim>\<open>ValidateStruct\<close> on a \<^verbatim>\<open>Usuario\<close>, following the \<^verbatim>\<open>validate\<close> tags of its fields.\<close>

definition ValidateStruct_Usuario :: "lib \<Rightarrow> Usuario \<Rightarrow> (string \<times> string) list" where
  "ValidateStruct_Usuario l u =
     first_failed ''NombreUsuario''
       [(''required'', NombreUsuario u \<noteq> []),
        (''min'', 3 \<le> utf8_RuneCountInString l (NombreUsuario u)),
        (''max'', utf8_RuneCountInString l (NombreUsuario u) \<le> 50),
        (''no_sql_injection'', validateNoSQLInjection l (NombreUsuario u)),
        (''safe_string'', validateSafeString (NombreUsuario u))]
     @ first_failed ''Password''
         [(''required'', Password u \<noteq> []),
          (''min'', 6 \<le> utf8_RuneCountInString l (Password u)),
          (''max'', utf8_RuneCountInString l (Password u) \<le> 100)]
     @ first_failed ''Rol''
         [(''required'', Rol u \<noteq> []),
          (''oneof'', Rol u \<in> set [''administrador'', ''jugador''])]"

text \<open>
  \<^verbatim>\<open>ParseAndValidateJSON\<close> at the type \<^verbatim>\<open>Usuario\<close>: decode (unknown fields are an error of
  the decoder), then validate.
\<close>

definition ParseAndValidateJSON_Usuario :: "lib \<Rightarrow> string \<Rightarrow> error + Usuario" where
  "ParseAndValidateJSON_Usuario l body_bytes =
     (case json_Decode_Usuario l body_bytes of
        Inl msg \<Rightarrow> Inl (Upstream msg)
      | Inr u \<Rightarrow>
          (case ValidateStruct_Usuario l u of
             [] \<Rightarrow> Inr u
           | err # errs \<Rightarrow> Inl (ValidationErrors (err # errs))))"

section \<open>Handlers\<close>

text \<open>
  \<^verbatim>\<open>RespondWithError\<close> and \<^verbatim>\<open>RespondWithJSON\<close> are not among the sources; what a
  handler writes is recorded as the call it makes, with the status code and the
  message. A request carries the path variable \<^verbatim>\<open>id\<close>, the body, and the user
  id and role that \<^verbatim>\<open>AuthMiddleware\<close> stored in its context from the verified token.

  A handler holds its service behind an interface, so the service method is a parameter:
  it takes the state of the store and returns its error with the new state.
\<close>

datatype response =
    RespondWithError nat string
  | RespondWithJSON nat string

record request =
  vars_id :: string
  body :: string
  ctx_user_id :: "int option"
  ctx_rol :: "string option"

definition AuthHandler_Register ::
  "lib \<Rightarrow> (Usuario \<Rightarrow> 's \<Rightarrow> error option \<times> 's) \<Rightarrow> request \<Rightarrow> 's \<Rightarrow> response \<times> 's" where
  "AuthHandler_Register l RegisterUser r s =
     (case ParseAndValidateJSON_Usuario l (body r) of
        Inl err \<Rightarrow> (RespondWithError 400 (''Datos invalidos: '' @ Error l err), s)
      | Inr usuario0 \<Rightarrow>
          (let usuario1 = usuario0\<lparr>NombreUsuario := SanitizeString l (NombreUsuario usuario0)\<rparr>
           in if Password usuario1 = []
              then (RespondWithError 400 ''Password es requerido'', s)
              else
                (let usuario2 = usuario1\<lparr>PasswordHash := Password usuario1\<rparr>;
                     usuario3 = usuario2\<lparr>Password := []\<rparr>;
                     usuario4 = (if Rol usuario3 = [] then usuario3\<lparr>Rol := ''jugador''\<rparr>
                                 else usuario3)
                 in case RegisterUser usuario4 s of
                      (Some err, s') \<Rightarrow> (RespondWithError 500 (Error l err), s')
                    | (None, s') \<Rightarrow> (RespondWithJSON 201 ''Usuario creado exitosamente'', s'))))"

definition PartidoHandler_ProposeMatchTime ::
  "lib \<Rightarrow> (int \<Rightarrow> int \<Rightarrow> Time \<Rightarrow> Time \<Rightarrow> 's \<Rightarrow> error option \<times> 's) \<Rightarrow> request \<Rightarrow> 's
     \<Rightarrow> response \<times> 's" where
  "PartidoHandler_ProposeMatchTime l ProposeMatchTime_svc r s =
     (case strconv_Atoi l (vars_id r) of
        Inl _ \<Rightarrow> (RespondWithError 400 ''ID de partido invalido'', s)
      | Inr partidoID \<Rightarrow>
          (let jugadorID = 1
           in case json_Decode_ProposeRequest l (body r) of
                Inl _ \<Rightarrow> (RespondWithError 400 ''Datos JSON invalidos'', s)
              | Inr (Fecha, Hora) \<Rightarrow>
                  (case time_Parse l ''2006-01-02'' Fecha of
                     Inl _ \<Rightarrow>
                       (RespondWithError 400 ''Formato de fecha invalido (YYYY-MM-DD)'', s)
                   | Inr fecha \<Rightarrow>
                       (case time_Parse l ''15:04'' Hora of
                          Inl _ \<Rightarrow>
                            (RespondWithError 400 ''Formato de hora invalido (HH:MM)'', s)
                        | Inr hora \<Rightarrow>
                            (case ProposeMatchTime_svc partidoID jugadorID fecha hora s of
                               (Some err, s') \<Rightarrow> (RespondWithError 500 (Error l err), s')
                             | (None, s') \<Rightarrow>
                                 (RespondWithJSON 200
                                    ''Propuesta de horario enviada exitosamente'', s'))))))"

definition PartidoHandler_AcceptMatchTime ::
  "lib \<Rightarrow> (int \<Rightarrow> int \<Rightarrow> 's \<Rightarrow> error option \<times> 's) \<Rightarrow> request \<Rightarrow> 's \<Rightarrow> response \<times> 's" where
  "PartidoHandler_AcceptMatchTime l AcceptMatchTime_svc r s =
     (case strconv_Atoi l (vars_id r) of
        Inl _ \<Rightarrow> (RespondWithError 400 ''ID de partido invalido'', s)
      | Inr partidoID \<Rightarrow>
          (let jugadorID = 1
           in case AcceptMatchTime_svc partidoID jugadorID s of
                (Some err, s') \<Rightarrow> (RespondWithError 500 (Error l err), s')
              | (None, s') \<Rightarrow> (RespondWithJSON 200 ''Horario aceptado exitosamente'', s')))"


section \<open>Concrete states\<close>

text \<open>
  A store with one match between players 10 and 20 on which nothing has been proposed or
  reported, an environment in which nothing fails, and one in which the store rejects
  the insert of set number 2.
\<close>

definition partido_ex :: Partido where
  "partido_ex =
     \<lparr>ID = 1, TorneoID = 1, CategoriaID = 1, Jugador1ID = 10, Jugador2ID = 20,
      Fase = ''Final'', FechaAgendada = None, HoraAgendada = None,
      PropuestaFechaJ1 = None, PropuestaHoraJ1 = None,
      PropuestaFechaJ2 = None, PropuestaHoraJ2 = None,
      PropuestaAceptadaJ1 = False, PropuestaAceptadaJ2 = False,
      Estado = ''Pendiente'', ResultadoSetsJ1 = None, ResultadoSetsJ2 = None,
      GanadorID = None, PerdedorID = None, ResultadoAprobado = False,
      CreatedAt = 0, UpdatedAt = 0\<rparr>"

definition usuario_ex :: Usuario where
  "usuario_ex =
     \<lparr>UsuarioID = 7, NombreUsuario = ''admin'', Email = None, Password = [],
      PasswordHash = ''hash:Admin123!'', Rol = ''administrador'', JugadorID = None,
      UsuarioCreatedAt = 0, UsuarioUpdatedAt = 0\<rparr>"

definition db_ex :: db where
  "db_ex = \<lparr>partidos = [partido_ex], sets_partido = [], usuarios = [usuario_ex]\<rparr>"

definition env_at :: "Time \<Rightarrow> env" where
  "env_at t =
     \<lparr>now = t, begin_fault = None, query_fault = None, exec_fault = (\<lambda>d q. None),
      rows_fault = None, commit_fault = None\<rparr>"

definition rejects_set_2 :: "db \<Rightarrow> stmt \<Rightarrow> string option" where
  "rejects_set_2 d q =
     (case q of
        InsertSet pid n sc1 sc2 tb1 tb2 \<Rightarrow> if n = 2 then Some ''insert failed'' else None
      | _ \<Rightarrow> None)"

definition env_set_2_fails :: env where
  "env_set_2_fails = (env_at 5)\<lparr>exec_fault := rejects_set_2\<rparr>"

definition set_ex :: "int \<Rightarrow> int \<Rightarrow> int \<Rightarrow> SetPartido" where
  "set_ex n sc1 sc2 =
     \<lparr>SetID = 0, PartidoID = 0, NumeroSet = n, ScoreJugador1 = sc1, ScoreJugador2 = sc2,
      TieBreakJ1 = None, TieBreakJ2 = None, SetCreatedAt = 0, SetUpdatedAt = 0\<rparr>"

text \<open>
  Library functions for the concrete runs: the path variable \<open>1\<close> parses to 1, the date
  and time of the end-to-end scenario parse, a password matches the hash made of
  \<open>hash:\<close> and itself, the body \<open>{}\<close> decodes to a \<^verbatim>\<open>Usuario\<close> whose \<^verbatim>\<open>rol\<close> is
  empty, and any other body to the same user with the role \<open>jugador\<close>.
\<close>

definition usuario_sin_rol :: Usuario where
  "usuario_sin_rol =
     \<lparr>UsuarioID = 0, NombreUsuario = ''maria'', Email = None, Password = ''secreto1'',
      PasswordHash = [], Rol = [], JugadorID = None,
      UsuarioCreatedAt = 0, UsuarioUpdatedAt = 0\<rparr>"

definition lib_ex :: lib where
  "lib_ex =
     \<lparr>strconv_Atoi = (\<lambda>s. if s = ''1'' then Inr 1 else Inl ''invalid syntax''),
      json_Decode_ProposeRequest = (\<lambda>b. Inr (''2025-03-01'', ''14:00'')),
      json_Decode_Usuario =
        (\<lambda>b. if b = ''{}'' then Inr usuario_sin_rol
             else Inr (usuario_sin_rol\<lparr>Rol := ''jugador''\<rparr>)),
      time_Parse =
        (\<lambda>layout v. if v = ''2025-03-01'' then Inr 100
                    else if v = ''14:00'' then Inr 200 else Inl ''cannot parse''),
      time_Now = (\<lambda>k. 0),
      jwt_NewNumericDate = (\<lambda>t. t),
      jwt_SignedString = (\<lambda>c k. Inr ''token''),
      bcrypt_CompareHashAndPassword =
        (\<lambda>h p. if h = ''hash:'' @ p then None else Some ''mismatch''),
      regexp_MatchString = (\<lambda>pattern v. False),
      utf8_RuneCountInString = length,
      html_EscapeString = (\<lambda>s. s),
      strings_TrimSpace = (\<lambda>s. s),
      validator_Error = (\<lambda>errs. ''validation failed'')\<rparr>"

definition request_ex :: "string \<Rightarrow> request" where
  "request_ex b = \<lparr>vars_id = ''1'', body = b, ctx_user_id = Some 7, ctx_rol = Some ''jugador''\<rparr>"

text \<open>A service double that records the user it was asked to register.\<close>

definition RegisterUser_rec :: "Usuario \<Rightarrow> Usuario list \<Rightarrow> error option \<times> Usuario list" where
  "RegisterUser_rec u s = (None, s @ [u])"


section \<open>Properties of the store\<close>

lemma find_update_where_id:
  assumes "\<And>p. ID (f p) = ID p"
  shows "find (\<lambda>p. ID p = k) (map (\<lambda>p. if ID p = k then f p else p) ps)
         = map_option f (find (\<lambda>p. ID p = k) ps)"
  using assms by (induction ps) auto

lemma filter_nonempty_of_find:
  "find P ps = Some m \<Longrightarrow> filter P ps \<noteq> []"
  by (induction ps) (auto split: if_splits)

lemma GetPartidoByID_Inr:
  "GetPartidoByID e d k = Inr m \<longleftrightarrow>
     query_fault e = None \<and> find (\<lambda>p. ID p = k) (partidos d) = Some m"
  by (auto simp: GetPartidoByID_def split: option.splits)

lemma GetPartidoByID_update:
  assumes "GetPartidoByID e d k = Inr m" and "\<And>p. ID (f p) = ID p"
  shows "GetPartidoByID e (fst (update_where_id k f d)) k = Inr (f m)"
  using assms by (simp add: GetPartidoByID_Inr update_where_id_def find_update_where_id)

lemma rows_update_where_id:
  "GetPartidoByID e d k = Inr m \<Longrightarrow> snd (update_where_id k f d) \<noteq> 0"
  by (simp add: GetPartidoByID_Inr update_where_id_def filter_nonempty_of_find)

lemma exec_checked_ok:
  assumes "exec_fault e d q = None" and "rows_fault e = None"
    and "snd (run_stmt (now e) q d) \<noteq> 0"
  shows "exec_checked e d q = (None, fst (run_stmt (now e) q d))"
  using assms by (cases "run_stmt (now e) q d") (simp add: exec_checked_def Exec_def)

lemma insert_sets_Inr:
  "insert_sets e pid tx sets = Inr tx' \<Longrightarrow>
   tx' = tx\<lparr>sets_partido := sets_partido tx @
           map (\<lambda>s. \<lparr>partido_id = pid, numero_set = NumeroSet s,
                     score_jugador1 = ScoreJugador1 s, score_jugador2 = ScoreJugador2 s,
                     tie_break_j1 = TieBreakJ1 s, tie_break_j2 = TieBreakJ2 s,
                     created_at = now e, updated_at = now e\<rparr>) sets\<rparr>"
proof (induction sets arbitrary: tx)
  case Nil
  then show ?case by simp
next
  case (Cons s sets)
  let ?q = "InsertSet pid (NumeroSet s) (ScoreJugador1 s) (ScoreJugador2 s)
              (TieBreakJ1 s) (TieBreakJ2 s)"
  from Cons.prems have rest: "insert_sets e pid (fst (run_stmt (now e) ?q tx)) sets = Inr tx'"
    by (simp add: Exec_def split: option.splits)
  show ?case
    using Cons.IH [OF rest] by simp
qed

lemma insert_sets_no_fault:
  "\<forall>d' q. exec_fault e d' q = None \<Longrightarrow> \<exists>tx'. insert_sets e pid tx sets = Inr tx'"
  by (induction sets arbitrary: tx) (simp_all add: Exec_def)

lemma env_at_simps:
  "now (env_at t) = t" "begin_fault (env_at t) = None" "query_fault (env_at t) = None"
  "exec_fault (env_at t) d q = None" "rows_fault (env_at t) = None"
  "commit_fault (env_at t) = None"
  by (simp_all add: env_at_def)

lemma GetPartidoByID_ex: "GetPartidoByID (env_at t) db_ex 1 = Inr partido_ex"
  by (simp add: GetPartidoByID_def env_at_simps db_ex_def partido_ex_def)

section \<open>Proposing a time\<close>

text \<open>
  C3. When the acting player is neither of the two players of an existing match,
  \<^verbatim>\<open>ProposeMatchTime\<close> fails with "el jugador no es parte de este partido"
  (NotParticipant) and returns the store as it was: both proposal slots, like
  everything else, are unchanged.
\<close>

theorem ProposeMatchTime_not_participant:
  assumes "GetPartidoByID e d partidoID = Inr m"
    and "jugadorID \<noteq> Jugador1ID m" and "jugadorID \<noteq> Jugador2ID m"
  shows "ProposeMatchTime e d partidoID jugadorID fecha hora = (Some JugadorNoEsParte, d)"
  using assms by (simp add: ProposeMatchTime_def)

theorem ProposeMatchTime_not_participant_witness:
  "GetPartidoByID (env_at 5) db_ex 1 = Inr partido_ex
   \<and> 30 \<noteq> Jugador1ID partido_ex \<and> 30 \<noteq> Jugador2ID partido_ex
   \<and> ProposeMatchTime (env_at 5) db_ex 1 30 100 200 = (Some JugadorNoEsParte, db_ex)"
proof -
  have m: "GetPartidoByID (env_at 5) db_ex 1 = Inr partido_ex"
    by (rule GetPartidoByID_ex)
  have j1: "30 \<noteq> Jugador1ID partido_ex" and j2: "30 \<noteq> Jugador2ID partido_ex"
    by (simp_all add: partido_ex_def)
  show ?thesis
    using m j1 j2 ProposeMatchTime_not_participant [OF m j1 j2, of 100 200] by simp
qed

text \<open>
  C4. When the acting player is one of the two players of an existing match and the
  store accepts the statement, \<^verbatim>\<open>ProposeMatchTime\<close> succeeds and the match read back is
  the old one with the proposed date and time in the acting player's slot (slot 1 when
  the player is \<^verbatim>\<open>jugador1_id\<close>, slot 2 otherwise) and with \<^verbatim>\<open>updated_at\<close> set to the time of
  the call. Every other field of the match is as before: the other slot, both acceptance
  flags, the agreed date and time, and the result fields. Rows with another id and the
  other tables are untouched.
\<close>

theorem ProposeMatchTime_own_slot:
  assumes m: "GetPartidoByID e d partidoID = Inr m"
    and part: "jugadorID = Jugador1ID m \<or> jugadorID = Jugador2ID m"
    and nofault: "\<forall>q. exec_fault e d q = None" "rows_fault e = None"
  shows "if jugadorID = Jugador1ID m
         then ProposeMatchTime e d partidoID jugadorID fecha hora =
                (None, d\<lparr>partidos := map (\<lambda>p. if ID p = partidoID
                                   then p\<lparr>PropuestaFechaJ1 := Some fecha,
                                          PropuestaHoraJ1 := Some hora, UpdatedAt := now e\<rparr>
                                   else p) (partidos d)\<rparr>)
              \<and> GetPartidoByID e (snd (ProposeMatchTime e d partidoID jugadorID fecha hora))
                   partidoID =
                  Inr (m\<lparr>PropuestaFechaJ1 := Some fecha, PropuestaHoraJ1 := Some hora,
                         UpdatedAt := now e\<rparr>)
         else ProposeMatchTime e d partidoID jugadorID fecha hora =
                (None, d\<lparr>partidos := map (\<lambda>p. if ID p = partidoID
                                   then p\<lparr>PropuestaFechaJ2 := Some fecha,
                                          PropuestaHoraJ2 := Some hora, UpdatedAt := now e\<rparr>
                                   else p) (partidos d)\<rparr>)
              \<and> GetPartidoByID e (snd (ProposeMatchTime e d partidoID jugadorID fecha hora))
                   partidoID =
                  Inr (m\<lparr>PropuestaFechaJ2 := Some fecha, PropuestaHoraJ2 := Some hora,
                         UpdatedAt := now e\<rparr>)"
proof (cases "jugadorID = Jugador1ID m")
  case True
  let ?q = "UpdatePropuestaJ1 fecha hora partidoID"
  have run: "ProposeMatchTime e d partidoID jugadorID fecha hora
             = (None, fst (run_stmt (now e) ?q d))"
    using m True nofault
    by (simp add: ProposeMatchTime_def exec_checked_ok rows_update_where_id)
  have look: "GetPartidoByID e (fst (run_stmt (now e) ?q d)) partidoID =
                Inr (m\<lparr>PropuestaFechaJ1 := Some fecha, PropuestaHoraJ1 := Some hora,
                       UpdatedAt := now e\<rparr>)"
    using m by (simp add: GetPartidoByID_update)
  show ?thesis
    using True run look by (simp add: update_where_id_def)
next
  case False
  let ?q = "UpdatePropuestaJ2 fecha hora partidoID"
  have run: "ProposeMatchTime e d partidoID jugadorID fecha hora
             = (None, fst (run_stmt (now e) ?q d))"
    using m False part nofault
    by (simp add: ProposeMatchTime_def exec_checked_ok rows_update_where_id)
  have look: "GetPartidoByID e (fst (run_stmt (now e) ?q d)) partidoID =
                Inr (m\<lparr>PropuestaFechaJ2 := Some fecha, PropuestaHoraJ2 := Some hora,
                       UpdatedAt := now e\<rparr>)"
    using m by (simp add: GetPartidoByID_update)
  show ?thesis
    using False run look by (simp add: update_where_id_def)
qed

theorem ProposeMatchTime_own_slot_witness:
  "ProposeMatchTime (env_at 5) db_ex 1 10 100 200 =
     (None, db_ex\<lparr>partidos := [partido_ex\<lparr>PropuestaFechaJ1 := Some 100,
                                  PropuestaHoraJ1 := Some 200, UpdatedAt := 5\<rparr>]\<rparr>)
   \<and> ProposeMatchTime (env_at 5) db_ex 1 20 100 200 =
     (None, db_ex\<lparr>partidos := [partido_ex\<lparr>PropuestaFechaJ2 := Some 100,
                                  PropuestaHoraJ2 := Some 200, UpdatedAt := 5\<rparr>]\<rparr>)"
proof -
  have m: "GetPartidoByID (env_at 5) db_ex 1 = Inr partido_ex"
    by (rule GetPartidoByID_ex)
  have nf: "\<forall>q. exec_fault (env_at 5) db_ex q = None" "rows_fault (env_at 5) = None"
    by (simp_all add: env_at_def)
  have p1: "10 = Jugador1ID partido_ex \<or> 10 = Jugador2ID partido_ex"
    and p2: "20 = Jugador1ID partido_ex \<or> 20 = Jugador2ID partido_ex"
    by (simp_all add: partido_ex_def)
  have a: "ProposeMatchTime (env_at 5) db_ex 1 10 100 200 =
     (None, db_ex\<lparr>partidos := [partido_ex\<lparr>PropuestaFechaJ1 := Some 100,
                                  PropuestaHoraJ1 := Some 200, UpdatedAt := 5\<rparr>]\<rparr>)"
    using ProposeMatchTime_own_slot [OF m p1 nf, of 100 200]
    by (simp add: partido_ex_def db_ex_def env_at_def)
  have b: "ProposeMatchTime (env_at 5) db_ex 1 20 100 200 =
     (None, db_ex\<lparr>partidos := [partido_ex\<lparr>PropuestaFechaJ2 := Some 100,
                                  PropuestaHoraJ2 := Some 200, UpdatedAt := 5\<rparr>]\<rparr>)"
    using ProposeMatchTime_own_slot [OF m p2 nf, of 100 200]
    by (simp add: partido_ex_def db_ex_def env_at_def)
  show ?thesis using a b by simp
qed


section \<open>Accepting a time\<close>

text \<open>
  C5, as the claim states it: accepting sets the acting player's acceptance flag and
  changes nothing else. It fails on the store: the statement also sets \<^verbatim>\<open>updated_at\<close>
  to \<^verbatim>\<open>NOW()\<close>. Player 10 accepts on the example match at time 5: the call succeeds,
  and the state it leaves is not the old state with only the flag set.
\<close>

theorem AcceptMatchTime_changes_updated_at:
  "fst (AcceptMatchTime (env_at 5) db_ex 1 10) = None
   \<and> snd (AcceptMatchTime (env_at 5) db_ex 1 10) \<noteq>
       db_ex\<lparr>partidos := [partido_ex\<lparr>PropuestaAceptadaJ1 := True\<rparr>]\<rparr>
   \<and> snd (AcceptMatchTime (env_at 5) db_ex 1 10) =
       db_ex\<lparr>partidos := [partido_ex\<lparr>PropuestaAceptadaJ1 := True, UpdatedAt := 5\<rparr>]\<rparr>"
  by (simp add: AcceptMatchTime_def GetPartidoByID_def exec_checked_def Exec_def
      update_where_id_def env_at_def db_ex_def partido_ex_def)

text \<open>
  C5, amended. When the acting player is one of the two players of an existing match
  and the store accepts the statement, \<^verbatim>\<open>AcceptMatchTime\<close> succeeds and the match read
  back is the old one with the acting player's acceptance flag true (flag 1 when the
  player is \<^verbatim>\<open>jugador1_id\<close>, flag 2 otherwise) and \<^verbatim>\<open>updated_at\<close> set to the time of the
  call. Nothing else changes; in particular the agreed date and time keep their old
  values whatever the two proposals are.
\<close>

theorem AcceptMatchTime_own_flag:
  assumes m: "GetPartidoByID e d partidoID = Inr m"
    and part: "jugadorID = Jugador1ID m \<or> jugadorID = Jugador2ID m"
    and nofault: "\<forall>q. exec_fault e d q = None" "rows_fault e = None"
  shows "if jugadorID = Jugador1ID m
         then AcceptMatchTime e d partidoID jugadorID =
                (None, d\<lparr>partidos := map (\<lambda>p. if ID p = partidoID
                                   then p\<lparr>PropuestaAceptadaJ1 := True, UpdatedAt := now e\<rparr>
                                   else p) (partidos d)\<rparr>)
              \<and> GetPartidoByID e (snd (AcceptMatchTime e d partidoID jugadorID)) partidoID =
                  Inr (m\<lparr>PropuestaAceptadaJ1 := True, UpdatedAt := now e\<rparr>)
         else AcceptMatchTime e d partidoID jugadorID =
                (None, d\<lparr>partidos := map (\<lambda>p. if ID p = partidoID
                                   then p\<lparr>PropuestaAceptadaJ2 := True, UpdatedAt := now e\<rparr>
                                   else p) (partidos d)\<rparr>)
              \<and> GetPartidoByID e (snd (AcceptMatchTime e d partidoID jugadorID)) partidoID =
                  Inr (m\<lparr>PropuestaAceptadaJ2 := True, UpdatedAt := now e\<rparr>)"
proof (cases "jugadorID = Jugador1ID m")
  case True
  let ?q = "UpdateAceptadaJ1 partidoID"
  have run: "AcceptMatchTime e d partidoID jugadorID = (None, fst (run_stmt (now e) ?q d))"
    using m True nofault
    by (simp add: AcceptMatchTime_def exec_checked_ok rows_update_where_id)
  have look: "GetPartidoByID e (fst (run_stmt (now e) ?q d)) partidoID =
                Inr (m\<lparr>PropuestaAceptadaJ1 := True, UpdatedAt := now e\<rparr>)"
    using m by (simp add: GetPartidoByID_update)
  show ?thesis
    using True run look by (simp add: update_where_id_def)
next
  case False
  let ?q = "UpdateAceptadaJ2 partidoID"
  have run: "AcceptMatchTime e d partidoID jugadorID = (None, fst (run_stmt (now e) ?q d))"
    using m False part nofault
    by (simp add: AcceptMatchTime_def exec_checked_ok rows_update_where_id)
  have look: "GetPartidoByID e (fst (run_stmt (now e) ?q d)) partidoID =
                Inr (m\<lparr>PropuestaAceptadaJ2 := True, UpdatedAt := now e\<rparr>)"
    using m by (simp add: GetPartidoByID_update)
  show ?thesis
    using False run look by (simp add: update_where_id_def)
qed

theorem AcceptMatchTime_own_flag_witness:
  "GetPartidoByID (env_at 5) (snd (AcceptMatchTime (env_at 5) db_ex 1 20)) 1 =
     Inr (partido_ex\<lparr>PropuestaAceptadaJ2 := True, UpdatedAt := 5\<rparr>)
   \<and> FechaAgendada (partido_ex\<lparr>PropuestaAceptadaJ2 := True, UpdatedAt := 5\<rparr>) = None"
proof -
  have m: "GetPartidoByID (env_at 5) db_ex 1 = Inr partido_ex"
    by (rule GetPartidoByID_ex)
  have nf: "\<forall>q. exec_fault (env_at 5) db_ex q = None" "rows_fault (env_at 5) = None"
    by (simp_all add: env_at_def)
  have p2: "20 = Jugador1ID partido_ex \<or> 20 = Jugador2ID partido_ex"
    and not1: "20 \<noteq> Jugador1ID partido_ex"
    by (simp_all add: partido_ex_def)
  have t: "now (env_at 5) = 5"
    by (simp add: env_at_def)
  have "GetPartidoByID (env_at 5) (snd (AcceptMatchTime (env_at 5) db_ex 1 20)) 1 =
          Inr (partido_ex\<lparr>PropuestaAceptadaJ2 := True, UpdatedAt := now (env_at 5)\<rparr>)"
    using AcceptMatchTime_own_flag [OF m p2 nf] not1 by metis
  then show ?thesis
    unfolding t
    by (simp add: partido_ex_def)
qed

section \<open>Approving a result\<close>

text \<open>
  C6, as the claim states it: two calls in succession leave the state that one call
  leaves. It fails on the store: each call sets \<^verbatim>\<open>updated_at\<close> to its own \<^verbatim>\<open>NOW()\<close>.
  On the example match, a call at time 5 followed by a call at time 9 leaves a state
  other than the one the call at time 5 leaves.
\<close>

theorem ApproveResult_twice_differs:
  "snd (ApproveResult (env_at 9) (snd (ApproveResult (env_at 5) db_ex 1)) 1) \<noteq>
     snd (ApproveResult (env_at 5) db_ex 1)"
  by (simp add: ApproveResult_def exec_checked_def Exec_def update_where_id_def
      env_at_def db_ex_def partido_ex_def)

text \<open>
  C6, amended. If the store accepts the statement of the second call, two calls in
  succession leave the state that a single call made at the time of the second call
  leaves: the approval flag is true, and \<^verbatim>\<open>updated_at\<close> carries the time of the latest
  call. Two calls that read the same \<^verbatim>\<open>NOW()\<close> therefore leave the state of one.
\<close>

theorem ApproveResult_twice:
  assumes "\<forall>d' q. exec_fault e2 d' q = None"
  shows "snd (ApproveResult e2 (snd (ApproveResult e1 d partidoID)) partidoID) =
           snd (ApproveResult e2 d partidoID)"
proof -
  have twice: "fst (run_stmt t2 (UpdateAprobado partidoID)
                     (fst (run_stmt t1 (UpdateAprobado partidoID) d0))) =
               fst (run_stmt t2 (UpdateAprobado partidoID) d0)" for t1 t2 d0
    by (simp add: update_where_id_def comp_def cong: if_cong)
  have once: "snd (ApproveResult e2 d0 partidoID) =
              fst (run_stmt (now e2) (UpdateAprobado partidoID) d0)" for d0
    using assms
    by (cases "run_stmt (now e2) (UpdateAprobado partidoID) d0")
       (simp add: ApproveResult_def exec_checked_def Exec_def split: option.splits)
  have first: "snd (ApproveResult e1 d partidoID) = d
               \<or> snd (ApproveResult e1 d partidoID) =
                   fst (run_stmt (now e1) (UpdateAprobado partidoID) d)"
    by (cases "run_stmt (now e1) (UpdateAprobado partidoID) d")
       (simp add: ApproveResult_def exec_checked_def Exec_def split: option.splits)
  show ?thesis
    using first once twice by metis
qed

theorem ApproveResult_twice_witness:
  "snd (ApproveResult (env_at 9) (snd (ApproveResult (env_at 5) db_ex 1)) 1) =
     db_ex\<lparr>partidos := [partido_ex\<lparr>ResultadoAprobado := True, UpdatedAt := 9\<rparr>]\<rparr>
   \<and> snd (ApproveResult (env_at 5) (snd (ApproveResult (env_at 5) db_ex 1)) 1) =
     snd (ApproveResult (env_at 5) db_ex 1)"
proof -
  have nf: "\<forall>d' q. exec_fault (env_at t) d' q = None" for t
    by (simp add: env_at_def)
  have once: "snd (ApproveResult (env_at 9) db_ex 1) =
      db_ex\<lparr>partidos := [partido_ex\<lparr>ResultadoAprobado := True, UpdatedAt := 9\<rparr>]\<rparr>"
    by (simp add: ApproveResult_def exec_checked_def Exec_def update_where_id_def
        env_at_def db_ex_def partido_ex_def)
  show ?thesis
    using ApproveResult_twice [OF nf, of 9 "env_at 5" db_ex 1]
      ApproveResult_twice [OF nf, of 5 "env_at 5" db_ex 1] once
    by simp
qed

text \<open>
  C7. \<^verbatim>\<open>ApproveResult\<close> asks for nothing but the match: whenever a row with the id exists
  and the store accepts the statement, the call succeeds and the row read back is the
  old one with the approval flag true and \<^verbatim>\<open>updated_at\<close> set to the time of the call.
  No field of the result is read, so this holds for a match on which no result was ever
  reported, as the example match is.
\<close>

theorem ApproveResult_no_precondition:
  assumes m: "GetPartidoByID e d partidoID = Inr m"
    and nofault: "exec_fault e d (UpdateAprobado partidoID) = None" "rows_fault e = None"
  shows "fst (ApproveResult e d partidoID) = None
         \<and> GetPartidoByID e (snd (ApproveResult e d partidoID)) partidoID =
             Inr (m\<lparr>ResultadoAprobado := True, UpdatedAt := now e\<rparr>)"
proof -
  let ?q = "UpdateAprobado partidoID"
  have run: "ApproveResult e d partidoID = (None, fst (run_stmt (now e) ?q d))"
    using m nofault by (simp add: ApproveResult_def exec_checked_ok rows_update_where_id)
  show ?thesis
    using run m by (simp add: GetPartidoByID_update)
qed

theorem ApproveResult_no_precondition_witness:
  "ResultadoSetsJ1 partido_ex = None \<and> ResultadoSetsJ2 partido_ex = None
   \<and> GanadorID partido_ex = None \<and> PerdedorID partido_ex = None
   \<and> fst (ApproveResult (env_at 5) db_ex 1) = None
   \<and> GetPartidoByID (env_at 5) (snd (ApproveResult (env_at 5) db_ex 1)) 1 =
       Inr (partido_ex\<lparr>ResultadoAprobado := True, UpdatedAt := 5\<rparr>)"
proof -
  have m: "GetPartidoByID (env_at 5) db_ex 1 = Inr partido_ex"
    by (rule GetPartidoByID_ex)
  have nf: "exec_fault (env_at 5) db_ex (UpdateAprobado 1) = None" "rows_fault (env_at 5) = None"
    by (simp_all add: env_at_def)
  show ?thesis
    using ApproveResult_no_precondition [OF m nf]
    by (simp add: partido_ex_def env_at_def)
qed

section \<open>Reporting a result\<close>

lemma write_result_cases:
  "write_result e d pid s1 s2 g l sets =
     (None, d\<lparr>partidos := map (\<lambda>p. if ID p = pid
                       then p\<lparr>ResultadoSetsJ1 := Some s1, ResultadoSetsJ2 := Some s2,
                              GanadorID := Some g, PerdedorID := Some l,
                              Estado := ''finalizado'', UpdatedAt := now e\<rparr>
                       else p) (partidos d),
              sets_partido := sets_partido d @
                map (\<lambda>s. \<lparr>partido_id = pid, numero_set = NumeroSet s,
                          score_jugador1 = ScoreJugador1 s, score_jugador2 = ScoreJugador2 s,
                          tie_break_j1 = TieBreakJ1 s, tie_break_j2 = TieBreakJ2 s,
                          created_at = now e, updated_at = now e\<rparr>) sets\<rparr>)
   \<or> (\<exists>err. write_result e d pid s1 s2 g l sets = (Some err, d))"
proof (cases "exec_fault e d (UpdateResultado s1 s2 g l pid)")
  case (Some msg)
  then show ?thesis by (simp add: write_result_def Exec_def)
next
  case None
  let ?tx = "fst (run_stmt (now e) (UpdateResultado s1 s2 g l pid) d)"
  have w: "write_result e d pid s1 s2 g l sets =
             (case insert_sets e pid ?tx sets of
                Inl err \<Rightarrow> (Some err, d)
              | Inr tx' \<Rightarrow>
                  (case commit_fault e of
                     Some msg \<Rightarrow> (Some (Upstream msg), d)
                   | None \<Rightarrow> (None, tx')))"
    using None by (simp add: write_result_def Exec_def update_where_id_def)
  show ?thesis
  proof (cases "insert_sets e pid ?tx sets")
    case (Inl err)
    then show ?thesis using w by simp
  next
    case (Inr tx')
    note ins = insert_sets_Inr [OF Inr]
    show ?thesis
    proof (cases "commit_fault e")
      case (Some msg)
      then show ?thesis using w Inr by simp
    next
      case None
      have "write_result e d pid s1 s2 g l sets = (None, tx')"
        using w Inr None by simp
      then show ?thesis
        using ins by (simp add: update_where_id_def)
    qed
  qed
qed

lemma write_result_no_fault:
  assumes "\<forall>d' q. exec_fault e d' q = None" and "commit_fault e = None"
  shows "fst (write_result e d pid s1 s2 g l sets) = None"
proof -
  obtain tx' where
    "insert_sets e pid (fst (run_stmt (now e) (UpdateResultado s1 s2 g l pid) d)) sets = Inr tx'"
    using insert_sets_no_fault [OF assms(1)] by blast
  then show ?thesis
    using assms by (simp add: write_result_def Exec_def update_where_id_def)
qed

lemma ReportMatchResult_valid:
  assumes "begin_fault e = None" and "GetPartidoByID e d pid = Inr m" and "g \<noteq> 0"
    and "g = Jugador1ID m \<or> g = Jugador2ID m"
  shows "ReportMatchResult e d pid s1 s2 g sets =
           write_result e d pid s1 s2 g
             (if g = Jugador1ID m then Jugador2ID m else Jugador1ID m) sets"
  using assms by (auto simp: ReportMatchResult_def)

lemma ReportMatchResult_fails_or_valid:
  "(\<exists>err. ReportMatchResult e d pid s1 s2 g sets = (Some err, d))
   \<or> (\<exists>m. begin_fault e = None \<and> GetPartidoByID e d pid = Inr m \<and> g \<noteq> 0
          \<and> (g = Jugador1ID m \<or> g = Jugador2ID m))"
  by (auto simp: ReportMatchResult_def split: option.splits sum.splits)


text \<open>
  C1, as the claim states it: every winner id that is neither player fails with
  "ganador_id no corresponde a ningun jugador del partido" (InvalidWinner). It fails
  for the id 0, which is neither player of the example match: the guard on 0 runs first
  and answers "ganador_id es requerido".
\<close>

theorem ReportMatchResult_zero_winner:
  "GetPartidoByID (env_at 5) db_ex 1 = Inr partido_ex
   \<and> 0 \<noteq> Jugador1ID partido_ex \<and> 0 \<noteq> Jugador2ID partido_ex
   \<and> ReportMatchResult (env_at 5) db_ex 1 2 1 0 [] = (Some GanadorRequerido, db_ex)
   \<and> fst (ReportMatchResult (env_at 5) db_ex 1 2 1 0 []) \<noteq> Some GanadorNoCorresponde"
  by (simp add: GetPartidoByID_ex ReportMatchResult_def env_at_simps partido_ex_def)

text \<open>
  C1, amended. The transaction opened and the match read, a winner id of 0 fails with
  "ganador_id es requerido", and a winner id other than 0 that is neither player of the
  match fails with "ganador_id no corresponde a ningun jugador del partido"
  (InvalidWinner). Both leave the store as it was: the match row is not updated and no
  set row is written. When a report with a winner id other than 0 succeeds, the match
  read back has that winner, and as loser the other player: player 2 when the winner is
  player 1, player 1 otherwise.
\<close>

theorem ReportMatchResult_invalid_winner:
  assumes "begin_fault e = None" and "GetPartidoByID e d partidoID = Inr m"
  shows "(ganadorID = 0 \<longrightarrow>
            ReportMatchResult e d partidoID s1 s2 ganadorID sets = (Some GanadorRequerido, d))
       \<and> (ganadorID \<noteq> 0 \<and> ganadorID \<noteq> Jugador1ID m \<and> ganadorID \<noteq> Jugador2ID m \<longrightarrow>
            ReportMatchResult e d partidoID s1 s2 ganadorID sets
              = (Some GanadorNoCorresponde, d))
       \<and> (fst (ReportMatchResult e d partidoID s1 s2 ganadorID sets) = None \<longrightarrow>
            (ganadorID = Jugador1ID m \<or> ganadorID = Jugador2ID m)
            \<and> (\<exists>m'. GetPartidoByID e
                       (snd (ReportMatchResult e d partidoID s1 s2 ganadorID sets))
                       partidoID = Inr m'
                   \<and> GanadorID m' = Some ganadorID
                   \<and> PerdedorID m' =
                       Some (if ganadorID = Jugador1ID m then Jugador2ID m
                             else Jugador1ID m)))"
proof (intro conjI impI)
  assume "ganadorID = 0"
  then show "ReportMatchResult e d partidoID s1 s2 ganadorID sets = (Some GanadorRequerido, d)"
    using assms by (simp add: ReportMatchResult_def)
next
  assume "ganadorID \<noteq> 0 \<and> ganadorID \<noteq> Jugador1ID m \<and> ganadorID \<noteq> Jugador2ID m"
  then show "ReportMatchResult e d partidoID s1 s2 ganadorID sets
               = (Some GanadorNoCorresponde, d)"
    using assms by (simp add: ReportMatchResult_def)
next
  assume ok: "fst (ReportMatchResult e d partidoID s1 s2 ganadorID sets) = None"
  from ok ReportMatchResult_fails_or_valid [of e d partidoID s1 s2 ganadorID sets] assms
  show "ganadorID = Jugador1ID m \<or> ganadorID = Jugador2ID m"
    by auto
next
  assume ok: "fst (ReportMatchResult e d partidoID s1 s2 ganadorID sets) = None"
  let ?l = "if ganadorID = Jugador1ID m then Jugador2ID m else Jugador1ID m"
  let ?f = "\<lambda>p. p\<lparr>ResultadoSetsJ1 := Some s1, ResultadoSetsJ2 := Some s2,
                   GanadorID := Some ganadorID, PerdedorID := Some ?l,
                   Estado := ''finalizado'', UpdatedAt := now e\<rparr>"
  from ok ReportMatchResult_fails_or_valid [of e d partidoID s1 s2 ganadorID sets] assms
  have valid: "ganadorID \<noteq> 0" "ganadorID = Jugador1ID m \<or> ganadorID = Jugador2ID m"
    by auto
  have eq: "ReportMatchResult e d partidoID s1 s2 ganadorID sets =
              write_result e d partidoID s1 s2 ganadorID ?l sets"
    using ReportMatchResult_valid [OF assms valid] .
  have look: "find (\<lambda>p. ID p = partidoID)
                (map (\<lambda>p. if ID p = partidoID then ?f p else p) (partidos d)) = Some (?f m)"
    using assms(2) by (simp add: GetPartidoByID_Inr find_update_where_id)
  have q: "query_fault e = None"
    using assms(2) by (simp add: GetPartidoByID_Inr)
  from write_result_cases [of e d partidoID s1 s2 ganadorID ?l sets] ok eq
  have "GetPartidoByID e (snd (ReportMatchResult e d partidoID s1 s2 ganadorID sets))
          partidoID = Inr (?f m)"
    using look q by (auto simp: GetPartidoByID_def)
  then show "\<exists>m'. GetPartidoByID e
                    (snd (ReportMatchResult e d partidoID s1 s2 ganadorID sets))
                    partidoID = Inr m'
                \<and> GanadorID m' = Some ganadorID
                \<and> PerdedorID m' =
                    Some (if ganadorID = Jugador1ID m then Jugador2ID m else Jugador1ID m)"
    by simp
qed

theorem ReportMatchResult_invalid_winner_witness:
  "ReportMatchResult (env_at 5) db_ex 1 2 1 0 [set_ex 1 6 4] = (Some GanadorRequerido, db_ex)
   \<and> ReportMatchResult (env_at 5) db_ex 1 2 1 30 [set_ex 1 6 4]
       = (Some GanadorNoCorresponde, db_ex)
   \<and> fst (ReportMatchResult (env_at 5) db_ex 1 2 1 20 [set_ex 1 6 4]) = None
   \<and> (\<exists>m'. GetPartidoByID (env_at 5)
              (snd (ReportMatchResult (env_at 5) db_ex 1 2 1 20 [set_ex 1 6 4])) 1 = Inr m'
          \<and> GanadorID m' = Some 20 \<and> PerdedorID m' = Some 10)"
proof -
  have b: "begin_fault (env_at 5) = None"
    by (simp add: env_at_simps)
  have m: "GetPartidoByID (env_at 5) db_ex 1 = Inr partido_ex"
    by (rule GetPartidoByID_ex)
  have j: "Jugador1ID partido_ex = 10" "Jugador2ID partido_ex = 20"
    by (simp_all add: partido_ex_def)
  have ok: "fst (ReportMatchResult (env_at 5) db_ex 1 2 1 20 [set_ex 1 6 4]) = None"
    by (simp add: ReportMatchResult_def write_result_def Exec_def GetPartidoByID_ex
        update_where_id_def env_at_simps partido_ex_def)
  show ?thesis
    using ReportMatchResult_invalid_winner [OF b m, of 0 2 1 "[set_ex 1 6 4]"]
      ReportMatchResult_invalid_winner [OF b m, of 30 2 1 "[set_ex 1 6 4]"]
      ReportMatchResult_invalid_winner [OF b m, of 20 2 1 "[set_ex 1 6 4]"] ok j
    by simp
qed

text \<open>
  C2. \<^verbatim>\<open>ReportMatchResult\<close> is all or nothing. If it returns an error, whatever the
  cause (the transaction not opening, the lookup, the guard on the winner, the update,
  any one of the set inserts, the commit), the store is as it was. If it succeeds, the
  winner is one of the two players of the match; the match read back is the old one
  with the two set counts, the winner, the other player as loser, the state
  \<open>finalizado\<close> and \<^verbatim>\<open>updated_at\<close> set to the time of the call; and the table of sets is
  the old one followed by one row per submitted set, in order, each under the id of the
  match. It does succeed when the winner is a player of the match and nothing fails.
\<close>

theorem ReportMatchResult_atomic:
  "(fst (ReportMatchResult e d partidoID s1 s2 ganadorID sets) \<noteq> None \<longrightarrow>
      snd (ReportMatchResult e d partidoID s1 s2 ganadorID sets) = d)
   \<and> (fst (ReportMatchResult e d partidoID s1 s2 ganadorID sets) = None \<longrightarrow>
        (\<exists>m. GetPartidoByID e d partidoID = Inr m
            \<and> (ganadorID = Jugador1ID m \<or> ganadorID = Jugador2ID m)
            \<and> GetPartidoByID e (snd (ReportMatchResult e d partidoID s1 s2 ganadorID sets))
                 partidoID =
                Inr (m\<lparr>ResultadoSetsJ1 := Some s1, ResultadoSetsJ2 := Some s2,
                       GanadorID := Some ganadorID,
                       PerdedorID := Some (if ganadorID = Jugador1ID m then Jugador2ID m
                                           else Jugador1ID m),
                       Estado := ''finalizado'', UpdatedAt := now e\<rparr>)
            \<and> sets_partido (snd (ReportMatchResult e d partidoID s1 s2 ganadorID sets)) =
                sets_partido d @
                map (\<lambda>s. \<lparr>partido_id = partidoID, numero_set = NumeroSet s,
                          score_jugador1 = ScoreJugador1 s, score_jugador2 = ScoreJugador2 s,
                          tie_break_j1 = TieBreakJ1 s, tie_break_j2 = TieBreakJ2 s,
                          created_at = now e, updated_at = now e\<rparr>) sets
            \<and> usuarios (snd (ReportMatchResult e d partidoID s1 s2 ganadorID sets)) =
                usuarios d))
   \<and> (\<forall>m. begin_fault e = None \<and> GetPartidoByID e d partidoID = Inr m
           \<and> (\<forall>d' q. exec_fault e d' q = None) \<and> commit_fault e = None
           \<and> ganadorID \<noteq> 0 \<and> (ganadorID = Jugador1ID m \<or> ganadorID = Jugador2ID m) \<longrightarrow>
          fst (ReportMatchResult e d partidoID s1 s2 ganadorID sets) = None)"
proof (intro conjI impI allI)
  assume "fst (ReportMatchResult e d partidoID s1 s2 ganadorID sets) \<noteq> None"
  note failed = this
  from ReportMatchResult_fails_or_valid [of e d partidoID s1 s2 ganadorID sets]
  show "snd (ReportMatchResult e d partidoID s1 s2 ganadorID sets) = d"
  proof
    assume "\<exists>err. ReportMatchResult e d partidoID s1 s2 ganadorID sets = (Some err, d)"
    then show ?thesis by auto
  next
    assume "\<exists>m. begin_fault e = None \<and> GetPartidoByID e d partidoID = Inr m
                \<and> ganadorID \<noteq> 0
                \<and> (ganadorID = Jugador1ID m \<or> ganadorID = Jugador2ID m)"
    then obtain m where b: "begin_fault e = None"
      and m: "GetPartidoByID e d partidoID = Inr m"
      and valid: "ganadorID \<noteq> 0" "ganadorID = Jugador1ID m \<or> ganadorID = Jugador2ID m"
      by blast
    let ?l = "if ganadorID = Jugador1ID m then Jugador2ID m else Jugador1ID m"
    have eq: "ReportMatchResult e d partidoID s1 s2 ganadorID sets =
                write_result e d partidoID s1 s2 ganadorID ?l sets"
      using ReportMatchResult_valid [OF b m valid] .
    from write_result_cases [of e d partidoID s1 s2 ganadorID ?l sets]
    show ?thesis
    proof
      assume "\<exists>err. write_result e d partidoID s1 s2 ganadorID ?l sets = (Some err, d)"
      then show ?thesis using eq by auto
    next
      assume "write_result e d partidoID s1 s2 ganadorID ?l sets =
        (None, d\<lparr>partidos := map (\<lambda>p. if ID p = partidoID
                       then p\<lparr>ResultadoSetsJ1 := Some s1, ResultadoSetsJ2 := Some s2,
                              GanadorID := Some ganadorID, PerdedorID := Some ?l,
                              Estado := ''finalizado'', UpdatedAt := now e\<rparr>
                       else p) (partidos d),
              sets_partido := sets_partido d @
                map (\<lambda>s. \<lparr>partido_id = partidoID, numero_set = NumeroSet s,
                          score_jugador1 = ScoreJugador1 s, score_jugador2 = ScoreJugador2 s,
                          tie_break_j1 = TieBreakJ1 s, tie_break_j2 = TieBreakJ2 s,
                          created_at = now e, updated_at = now e\<rparr>) sets\<rparr>)"
      then have "fst (ReportMatchResult e d partidoID s1 s2 ganadorID sets) = None"
        using eq by simp
      then show ?thesis using failed by simp
    qed
  qed
next
  assume ok: "fst (ReportMatchResult e d partidoID s1 s2 ganadorID sets) = None"
  from ok ReportMatchResult_fails_or_valid [of e d partidoID s1 s2 ganadorID sets]
  obtain m where b: "begin_fault e = None" and m: "GetPartidoByID e d partidoID = Inr m"
    and valid: "ganadorID \<noteq> 0" "ganadorID = Jugador1ID m \<or> ganadorID = Jugador2ID m"
    by auto
  let ?l = "if ganadorID = Jugador1ID m then Jugador2ID m else Jugador1ID m"
  let ?f = "\<lambda>p. p\<lparr>ResultadoSetsJ1 := Some s1, ResultadoSetsJ2 := Some s2,
                   GanadorID := Some ganadorID, PerdedorID := Some ?l,
                   Estado := ''finalizado'', UpdatedAt := now e\<rparr>"
  have eq: "ReportMatchResult e d partidoID s1 s2 ganadorID sets =
              write_result e d partidoID s1 s2 ganadorID ?l sets"
    using ReportMatchResult_valid [OF b m valid] .
  have look: "find (\<lambda>p. ID p = partidoID)
                (map (\<lambda>p. if ID p = partidoID then ?f p else p) (partidos d)) = Some (?f m)"
    using m by (simp add: GetPartidoByID_Inr find_update_where_id)
  have q: "query_fault e = None"
    using m by (simp add: GetPartidoByID_Inr)
  from write_result_cases [of e d partidoID s1 s2 ganadorID ?l sets] ok eq
  have st: "snd (ReportMatchResult e d partidoID s1 s2 ganadorID sets) =
              d\<lparr>partidos := map (\<lambda>p. if ID p = partidoID then ?f p else p) (partidos d),
                sets_partido := sets_partido d @
                  map (\<lambda>s. \<lparr>partido_id = partidoID, numero_set = NumeroSet s,
                            score_jugador1 = ScoreJugador1 s,
                            score_jugador2 = ScoreJugador2 s,
                            tie_break_j1 = TieBreakJ1 s, tie_break_j2 = TieBreakJ2 s,
                            created_at = now e, updated_at = now e\<rparr>) sets\<rparr>"
    by auto
  have "GetPartidoByID e (snd (ReportMatchResult e d partidoID s1 s2 ganadorID sets))
          partidoID = Inr (?f m)"
    unfolding st using look q by (simp add: GetPartidoByID_def)
  then show "\<exists>m. GetPartidoByID e d partidoID = Inr m
            \<and> (ganadorID = Jugador1ID m \<or> ganadorID = Jugador2ID m)
            \<and> GetPartidoByID e (snd (ReportMatchResult e d partidoID s1 s2 ganadorID sets))
                 partidoID =
                Inr (m\<lparr>ResultadoSetsJ1 := Some s1, ResultadoSetsJ2 := Some s2,
                       GanadorID := Some ganadorID,
                       PerdedorID := Some (if ganadorID = Jugador1ID m then Jugador2ID m
                                           else Jugador1ID m),
                       Estado := ''finalizado'', UpdatedAt := now e\<rparr>)
            \<and> sets_partido (snd (ReportMatchResult e d partidoID s1 s2 ganadorID sets)) =
                sets_partido d @
                map (\<lambda>s. \<lparr>partido_id = partidoID, numero_set = NumeroSet s,
                          score_jugador1 = ScoreJugador1 s, score_jugador2 = ScoreJugador2 s,
                          tie_break_j1 = TieBreakJ1 s, tie_break_j2 = TieBreakJ2 s,
                          created_at = now e, updated_at = now e\<rparr>) sets
            \<and> usuarios (snd (ReportMatchResult e d partidoID s1 s2 ganadorID sets)) =
                usuarios d"
    using m valid st by (intro exI [of _ m]) simp
next
  fix m
  assume a: "begin_fault e = None \<and> GetPartidoByID e d partidoID = Inr m
           \<and> (\<forall>d' q. exec_fault e d' q = None) \<and> commit_fault e = None
           \<and> ganadorID \<noteq> 0 \<and> (ganadorID = Jugador1ID m \<or> ganadorID = Jugador2ID m)"
  then have "ReportMatchResult e d partidoID s1 s2 ganadorID sets =
               write_result e d partidoID s1 s2 ganadorID
                 (if ganadorID = Jugador1ID m then Jugador2ID m else Jugador1ID m) sets"
    using ReportMatchResult_valid by blast
  then show "fst (ReportMatchResult e d partidoID s1 s2 ganadorID sets) = None"
    using a write_result_no_fault by simp
qed

theorem ReportMatchResult_atomic_witness:
  "ReportMatchResult (env_at 5) db_ex 1 2 0 10 [set_ex 1 6 4, set_ex 2 7 5] =
     (None,
      db_ex\<lparr>partidos :=
               [partido_ex\<lparr>ResultadoSetsJ1 := Some 2, ResultadoSetsJ2 := Some 0,
                           GanadorID := Some 10, PerdedorID := Some 20,
                           Estado := ''finalizado'', UpdatedAt := 5\<rparr>],
            sets_partido :=
               [\<lparr>partido_id = 1, numero_set = 1, score_jugador1 = 6, score_jugador2 = 4,
                 tie_break_j1 = None, tie_break_j2 = None, created_at = 5, updated_at = 5\<rparr>,
                \<lparr>partido_id = 1, numero_set = 2, score_jugador1 = 7, score_jugador2 = 5,
                 tie_break_j1 = None, tie_break_j2 = None, created_at = 5, updated_at = 5\<rparr>]\<rparr>)
   \<and> fst (ReportMatchResult env_set_2_fails db_ex 1 2 0 10 [set_ex 1 6 4, set_ex 2 7 5]) =
       Some (Upstream ''insert failed'')
   \<and> snd (ReportMatchResult env_set_2_fails db_ex 1 2 0 10 [set_ex 1 6 4, set_ex 2 7 5]) =
       db_ex"
proof -
  have good: "ReportMatchResult (env_at 5) db_ex 1 2 0 10 [set_ex 1 6 4, set_ex 2 7 5] =
     (None,
      db_ex\<lparr>partidos :=
               [partido_ex\<lparr>ResultadoSetsJ1 := Some 2, ResultadoSetsJ2 := Some 0,
                           GanadorID := Some 10, PerdedorID := Some 20,
                           Estado := ''finalizado'', UpdatedAt := 5\<rparr>],
            sets_partido :=
               [\<lparr>partido_id = 1, numero_set = 1, score_jugador1 = 6, score_jugador2 = 4,
                 tie_break_j1 = None, tie_break_j2 = None, created_at = 5, updated_at = 5\<rparr>,
                \<lparr>partido_id = 1, numero_set = 2, score_jugador1 = 7, score_jugador2 = 5,
                 tie_break_j1 = None, tie_break_j2 = None, created_at = 5, updated_at = 5\<rparr>]\<rparr>)"
    by (simp add: ReportMatchResult_def write_result_def Exec_def GetPartidoByID_def
        update_where_id_def env_at_simps db_ex_def partido_ex_def set_ex_def)
  have bad: "fst (ReportMatchResult env_set_2_fails db_ex 1 2 0 10
                    [set_ex 1 6 4, set_ex 2 7 5]) = Some (Upstream ''insert failed'')"
    by (simp add: ReportMatchResult_def write_result_def Exec_def GetPartidoByID_def
        update_where_id_def env_set_2_fails_def rejects_set_2_def env_at_def db_ex_def
        partido_ex_def set_ex_def)
  show ?thesis
    using good bad
      ReportMatchResult_atomic [of env_set_2_fails db_ex 1 2 0 10 "[set_ex 1 6 4, set_ex 2 7 5]"]
    by simp
qed


section \<open>Logging in\<close>

text \<open>
  C8. With the lookup itself not failing, \<^verbatim>\<open>LoginUser\<close> answers a user name that has no
  account and a password that does not match the stored hash of an existing account
  with the same error, "credenciales invalidas" (InvalidCredentials): the two results
  are equal, so the caller cannot tell the two causes apart from the error.
\<close>

theorem LoginUser_same_error:
  assumes "query_fault e1 = None" and "query_fault e2 = None"
    and "find (\<lambda>u. NombreUsuario u = username1) (usuarios d1) = None"
    and "find (\<lambda>u. NombreUsuario u = username2) (usuarios d2) = Some user"
    and "CheckPasswordHash l2 password2 (PasswordHash user) = Some msg"
  shows "LoginUser e1 l1 config1 d1 username1 password1 = Inl CredencialesInvalidas
       \<and> LoginUser e2 l2 config2 d2 username2 password2 = Inl CredencialesInvalidas
       \<and> LoginUser e1 l1 config1 d1 username1 password1
           = LoginUser e2 l2 config2 d2 username2 password2"
  using assms by (simp add: LoginUser_def)

theorem LoginUser_same_error_witness:
  "LoginUser (env_at 5) lib_ex \<lparr>JWTSecret = ''secret''\<rparr> db_ex ''nobody'' ''Admin123!''
     = Inl CredencialesInvalidas
   \<and> LoginUser (env_at 5) lib_ex \<lparr>JWTSecret = ''secret''\<rparr> db_ex ''admin'' ''wrong''
     = Inl CredencialesInvalidas
   \<and> LoginUser (env_at 5) lib_ex \<lparr>JWTSecret = ''secret''\<rparr> db_ex ''admin'' ''Admin123!''
     = Inr ''token''"
proof -
  have q: "query_fault (env_at 5) = None"
    by (simp add: env_at_simps)
  have none: "find (\<lambda>u. NombreUsuario u = ''nobody'') (usuarios db_ex) = None"
    by (simp add: db_ex_def usuario_ex_def)
  have some: "find (\<lambda>u. NombreUsuario u = ''admin'') (usuarios db_ex) = Some usuario_ex"
    by (simp add: db_ex_def usuario_ex_def)
  have bad: "CheckPasswordHash lib_ex ''wrong'' (PasswordHash usuario_ex) = Some ''mismatch''"
    by (simp add: CheckPasswordHash_def lib_ex_def usuario_ex_def)
  have good: "LoginUser (env_at 5) lib_ex \<lparr>JWTSecret = ''secret''\<rparr> db_ex ''admin''
                ''Admin123!'' = Inr ''token''"
    using q some
    by (simp add: LoginUser_def CheckPasswordHash_def GenerateJWT_def lib_ex_def
        usuario_ex_def)
  show ?thesis
    using LoginUser_same_error [OF q q none some bad,
        where ?l1.0 = lib_ex and ?config1.0 = "\<lparr>JWTSecret = ''secret''\<rparr>"
          and ?password1.0 = "''Admin123!''" and ?config2.0 = "\<lparr>JWTSecret = ''secret''\<rparr>"]
      good
    by simp
qed

section \<open>The acting player in the handlers\<close>

text \<open>
  C9. The propose-time and accept-time handlers never read the user id or the role that
  the authentication middleware stored in the request: replacing them changes neither
  the response nor the resulting store. Whenever a handler reaches its service, the
  acting player it passes is the constant 1: a request whose path id (and, for a
  proposal, whose body, date and time) parses is answered from the service's result
  for player 1, and two services that agree on player 1 give the same handler.
\<close>

theorem handlers_acting_player_constant:
  "PartidoHandler_ProposeMatchTime l propose (r\<lparr>ctx_user_id := uid, ctx_rol := rol\<rparr>) s
     = PartidoHandler_ProposeMatchTime l propose r s
   \<and> PartidoHandler_AcceptMatchTime l accept (r\<lparr>ctx_user_id := uid, ctx_rol := rol\<rparr>) s
     = PartidoHandler_AcceptMatchTime l accept r s
   \<and> (strconv_Atoi l (vars_id r) = Inr partidoID
        \<and> json_Decode_ProposeRequest l (body r) = Inr (Fecha, Hora)
        \<and> time_Parse l ''2006-01-02'' Fecha = Inr fecha
        \<and> time_Parse l ''15:04'' Hora = Inr hora \<longrightarrow>
      PartidoHandler_ProposeMatchTime l propose r s =
        (case propose partidoID 1 fecha hora s of
           (Some err, s') \<Rightarrow> (RespondWithError 500 (Error l err), s')
         | (None, s') \<Rightarrow>
             (RespondWithJSON 200 ''Propuesta de horario enviada exitosamente'', s')))
   \<and> (strconv_Atoi l (vars_id r) = Inr partidoID \<longrightarrow>
      PartidoHandler_AcceptMatchTime l accept r s =
        (case accept partidoID 1 s of
           (Some err, s') \<Rightarrow> (RespondWithError 500 (Error l err), s')
         | (None, s') \<Rightarrow> (RespondWithJSON 200 ''Horario aceptado exitosamente'', s')))
   \<and> ((\<forall>p f h. propose p 1 f h s = propose' p 1 f h s) \<longrightarrow>
        PartidoHandler_ProposeMatchTime l propose r s
          = PartidoHandler_ProposeMatchTime l propose' r s)
   \<and> ((\<forall>p. accept p 1 s = accept' p 1 s) \<longrightarrow>
        PartidoHandler_AcceptMatchTime l accept r s
          = PartidoHandler_AcceptMatchTime l accept' r s)"
proof (intro conjI impI)
  show "PartidoHandler_ProposeMatchTime l propose (r\<lparr>ctx_user_id := uid, ctx_rol := rol\<rparr>) s
          = PartidoHandler_ProposeMatchTime l propose r s"
    by (simp add: PartidoHandler_ProposeMatchTime_def cong: sum.case_cong)
  show "PartidoHandler_AcceptMatchTime l accept (r\<lparr>ctx_user_id := uid, ctx_rol := rol\<rparr>) s
          = PartidoHandler_AcceptMatchTime l accept r s"
    by (simp add: PartidoHandler_AcceptMatchTime_def)
next
  assume "strconv_Atoi l (vars_id r) = Inr partidoID
        \<and> json_Decode_ProposeRequest l (body r) = Inr (Fecha, Hora)
        \<and> time_Parse l ''2006-01-02'' Fecha = Inr fecha
        \<and> time_Parse l ''15:04'' Hora = Inr hora"
  then show "PartidoHandler_ProposeMatchTime l propose r s =
        (case propose partidoID 1 fecha hora s of
           (Some err, s') \<Rightarrow> (RespondWithError 500 (Error l err), s')
         | (None, s') \<Rightarrow>
             (RespondWithJSON 200 ''Propuesta de horario enviada exitosamente'', s'))"
    by (simp add: PartidoHandler_ProposeMatchTime_def)
next
  assume "strconv_Atoi l (vars_id r) = Inr partidoID"
  then show "PartidoHandler_AcceptMatchTime l accept r s =
        (case accept partidoID 1 s of
           (Some err, s') \<Rightarrow> (RespondWithError 500 (Error l err), s')
         | (None, s') \<Rightarrow> (RespondWithJSON 200 ''Horario aceptado exitosamente'', s'))"
    by (simp add: PartidoHandler_AcceptMatchTime_def)
next
  assume "\<forall>p f h. propose p 1 f h s = propose' p 1 f h s"
  then show "PartidoHandler_ProposeMatchTime l propose r s
               = PartidoHandler_ProposeMatchTime l propose' r s"
    by (simp add: PartidoHandler_ProposeMatchTime_def split: sum.splits prod.splits)
next
  assume "\<forall>p. accept p 1 s = accept' p 1 s"
  then show "PartidoHandler_AcceptMatchTime l accept r s
               = PartidoHandler_AcceptMatchTime l accept' r s"
    by (simp add: PartidoHandler_AcceptMatchTime_def split: sum.splits)
qed

text \<open>
  The witness runs the real services behind the handlers on the example store. The
  request is authenticated as user 7; the acting player is 1 all the same, who is not a
  player of the example match, so both handlers answer with the service's
  "el jugador no es parte de este partido".
\<close>

theorem handlers_acting_player_constant_witness:
  "PartidoHandler_ProposeMatchTime lib_ex
     (\<lambda>p j f h d. ProposeMatchTime (env_at 5) d p j f h) (request_ex ''{}'') db_ex
     = (RespondWithError 500 ''el jugador no es parte de este partido'', db_ex)
   \<and> PartidoHandler_AcceptMatchTime lib_ex
       (\<lambda>p j d. AcceptMatchTime (env_at 5) d p j) (request_ex ''{}'') db_ex
     = (RespondWithError 500 ''el jugador no es parte de este partido'', db_ex)"
proof -
  have a: "strconv_Atoi lib_ex (vars_id (request_ex ''{}'')) = Inr 1"
    by (simp add: lib_ex_def request_ex_def)
  have b: "json_Decode_ProposeRequest lib_ex (body (request_ex ''{}''))
             = Inr (''2025-03-01'', ''14:00'')"
    by (simp add: lib_ex_def)
  have c: "time_Parse lib_ex ''2006-01-02'' ''2025-03-01'' = Inr 100"
    and d: "time_Parse lib_ex ''15:04'' ''14:00'' = Inr 200"
    by (simp_all add: lib_ex_def)
  have j: "Jugador1ID partido_ex \<noteq> 1" "Jugador2ID partido_ex \<noteq> 1"
    by (simp_all add: partido_ex_def)
  have p: "ProposeMatchTime (env_at 5) db_ex 1 1 100 200 = (Some JugadorNoEsParte, db_ex)"
    using j by (simp add: ProposeMatchTime_def GetPartidoByID_ex)
  have q: "AcceptMatchTime (env_at 5) db_ex 1 1 = (Some JugadorNoEsParte, db_ex)"
    using j by (simp add: AcceptMatchTime_def GetPartidoByID_ex)
  show ?thesis
    using handlers_acting_player_constant
            [where l = lib_ex and r = "request_ex ''{}''" and s = db_ex
               and propose = "\<lambda>p j f h d. ProposeMatchTime (env_at 5) d p j f h"
               and accept = "\<lambda>p j d. AcceptMatchTime (env_at 5) d p j"
               and partidoID = 1 and Fecha = "''2025-03-01''" and Hora = "''14:00''"
               and fecha = 100 and hora = 200]
      a b c d p q
    by simp
qed

section \<open>The default role in the Register handler\<close>

lemma first_failed_Nil:
  "first_failed field tags = [] \<longleftrightarrow> (\<forall>(tag, ok) \<in> set tags. ok)"
  by (induction tags) (auto split: if_splits)

lemma ValidateStruct_Usuario_Nil:
  assumes "ValidateStruct_Usuario l u = []"
  shows "Rol u = ''administrador'' \<or> Rol u = ''jugador''" and "Password u \<noteq> []"
  using assms
  by (simp_all add: ValidateStruct_Usuario_def first_failed_Nil del: first_failed.simps)

lemma ValidateStruct_Usuario_no_rol:
  assumes "Rol u = []"
  shows "(''Rol'', ''required'') \<in> set (ValidateStruct_Usuario l u)"
  using assms by (simp add: ValidateStruct_Usuario_def)

text \<open>
  C10. In the Register handler the assignment of the default role is never reached.
  A body that decodes to a \<^verbatim>\<open>Usuario\<close> with an empty \<^verbatim>\<open>rol\<close> (the field left out, or set
  to the empty string) fails validation on the \<^verbatim>\<open>required\<close> tag of \<^verbatim>\<open>Rol\<close>; the handler
  answers 400 and leaves the store alone, whatever the service is. A body that passes
  validation has the role \<open>administrador\<close> or \<open>jugador\<close>, and the user handed to
  \<^verbatim>\<open>RegisterUser\<close> carries exactly that role: it is the decoded user with the name
  sanitised and the password moved to \<^verbatim>\<open>PasswordHash\<close>.
\<close>

theorem Register_default_role_unreachable:
  "(json_Decode_Usuario l (body r) = Inr u \<and> Rol u = [] \<longrightarrow>
      (''Rol'', ''required'') \<in> set (ValidateStruct_Usuario l u)
      \<and> AuthHandler_Register l RegisterUser r s =
          (RespondWithError 400
             (''Datos invalidos: '' @ validator_Error l (ValidateStruct_Usuario l u)), s))
   \<and> (ParseAndValidateJSON_Usuario l (body r) = Inr u \<longrightarrow>
        (Rol u = ''administrador'' \<or> Rol u = ''jugador'')
        \<and> AuthHandler_Register l RegisterUser r s =
            (case RegisterUser
                    (u\<lparr>NombreUsuario := SanitizeString l (NombreUsuario u),
                       PasswordHash := Password u, Password := []\<rparr>) s of
               (Some err, s') \<Rightarrow> (RespondWithError 500 (Error l err), s')
             | (None, s') \<Rightarrow> (RespondWithJSON 201 ''Usuario creado exitosamente'', s')))"
proof (intro conjI impI)
  assume a: "json_Decode_Usuario l (body r) = Inr u \<and> Rol u = []"
  then show req: "(''Rol'', ''required'') \<in> set (ValidateStruct_Usuario l u)"
    by (simp add: ValidateStruct_Usuario_no_rol)
  then obtain err errs where "ValidateStruct_Usuario l u = err # errs"
    by (cases "ValidateStruct_Usuario l u") auto
  then show "AuthHandler_Register l RegisterUser r s =
          (RespondWithError 400
             (''Datos invalidos: '' @ validator_Error l (ValidateStruct_Usuario l u)), s)"
    using a by (simp add: AuthHandler_Register_def ParseAndValidateJSON_Usuario_def)
next
  assume a: "ParseAndValidateJSON_Usuario l (body r) = Inr u"
  then have v: "ValidateStruct_Usuario l u = []"
    by (auto simp: ParseAndValidateJSON_Usuario_def split: sum.splits list.splits)
  show "Rol u = ''administrador'' \<or> Rol u = ''jugador''"
    using ValidateStruct_Usuario_Nil(1) [OF v] .
next
  assume a: "ParseAndValidateJSON_Usuario l (body r) = Inr u"
  then have v: "ValidateStruct_Usuario l u = []"
    by (auto simp: ParseAndValidateJSON_Usuario_def split: sum.splits list.splits)
  have rol: "Rol u \<noteq> []" and pw: "Password u \<noteq> []"
    using ValidateStruct_Usuario_Nil [OF v] by auto
  show "AuthHandler_Register l RegisterUser r s =
            (case RegisterUser
                    (u\<lparr>NombreUsuario := SanitizeString l (NombreUsuario u),
                       PasswordHash := Password u, Password := []\<rparr>) s of
               (Some err, s') \<Rightarrow> (RespondWithError 500 (Error l err), s')
             | (None, s') \<Rightarrow> (RespondWithJSON 201 ''Usuario creado exitosamente'', s'))"
    using a rol pw by (simp add: AuthHandler_Register_def Let_def)
qed

text \<open>
  The witness: the body \<open>{}\<close> carries no role and is refused with nobody registered;
  a body with the role \<open>jugador\<close> registers a user with that role.
\<close>

theorem Register_default_role_unreachable_witness:
  "AuthHandler_Register lib_ex RegisterUser_rec (request_ex ''{}'') []
     = (RespondWithError 400 ''Datos invalidos: validation failed'', [])
   \<and> AuthHandler_Register lib_ex RegisterUser_rec (request_ex ''{rol: jugador}'') []
     = (RespondWithJSON 201 ''Usuario creado exitosamente'',
        [usuario_sin_rol\<lparr>PasswordHash := ''secreto1'', Password := [], Rol := ''jugador''\<rparr>])"
proof -
  have d1: "json_Decode_Usuario lib_ex (body (request_ex ''{}'')) = Inr usuario_sin_rol
            \<and> Rol usuario_sin_rol = []"
    by (simp add: lib_ex_def request_ex_def usuario_sin_rol_def)
  have d2: "ParseAndValidateJSON_Usuario lib_ex (body (request_ex ''{rol: jugador}''))
              = Inr (usuario_sin_rol\<lparr>Rol := ''jugador''\<rparr>)"
    by (simp add: ParseAndValidateJSON_Usuario_def ValidateStruct_Usuario_def
        validateNoSQLInjection_def validateSafeString_def sqlPatterns_def dangerousChars_def
        lib_ex_def request_ex_def usuario_sin_rol_def)
  have v: "validator_Error lib_ex errs = ''validation failed''" for errs
    by (simp add: lib_ex_def)
  have sn: "SanitizeString lib_ex ''maria'' = ''maria''"
    by (simp add: SanitizeString_def lib_ex_def)
  have n: "NombreUsuario usuario_sin_rol = ''maria''" "Password usuario_sin_rol = ''secreto1''"
    by (simp_all add: usuario_sin_rol_def)
  show ?thesis
    using Register_default_role_unreachable
            [where l = lib_ex and r = "request_ex ''{}''" and u = usuario_sin_rol
               and RegisterUser = RegisterUser_rec and s = "[]"]
      Register_default_role_unreachable
            [where l = lib_ex and r = "request_ex ''{rol: jugador}''"
               and u = "usuario_sin_rol\<lparr>Rol := ''jugador''\<rparr>"
               and RegisterUser = RegisterUser_rec and s = "[]"]
      d1 d2 v sn n
    by (simp add: RegisterUser_rec_def)
qed

end
